theory Spec2Isabelle
  imports Main
begin

section \<open>Execution-trace logging of an agent run (smolagents/logger.py)\<close>

text \<open>
  Python strings are modelled as \<open>string\<close>, read as sequences of code points below 256.
  Exceptions are values: every operation that can raise returns \<open>py_exception + 'a\<close>,
  with \<open>Inl\<close> for the exception. \<open>Uncaught\<close> stands for an exception that is not an
  \<open>Exception\<close> (such as \<open>SystemExit\<close>) and so passes an \<open>except Exception\<close> clause.
\<close>

datatype py_exception = IndexError | AssertionError | AttributeError | TypeError | Uncaught

subsection \<open>Messages\<close>

text \<open>
  Modelled from the spec: \<open>MessageRole\<close> lives in smolagents.models; the spec gives it
  as the closed set \<open>system\<close>, \<open>user\<close>, \<open>assistant\<close>, \<open>tool-response\<close>, a string
  enumeration.
\<close>

datatype MessageRole = SYSTEM | USER | ASSISTANT | TOOL_RESPONSE

fun MessageRole_value :: "MessageRole \<Rightarrow> string" where
  "MessageRole_value SYSTEM = ''system''"
| "MessageRole_value USER = ''user''"
| "MessageRole_value ASSISTANT = ''assistant''"
| "MessageRole_value TOOL_RESPONSE = ''tool-response''"

text \<open>
  A content part, and an entry of \<open>agent_memory\<close>, is a \<open>Dict[str, str]\<close>: an association
  list in insertion order. \<open>Message.content\<close> is \<open>str | list[dict]\<close>.
\<close>

type_synonym pydict = "(string \<times> string) list"

datatype content = Str string | Parts "pydict list"

text \<open>
  \<open>Message\<close> is a dataclass with the fields \<open>role\<close> and \<open>content\<close>; \<open>Message.dict()\<close> is
  \<open>asdict(self)\<close>, the mapping with the same two entries (lists and dicts copied), so one
  record stands for the dataclass and for its dict.
\<close>

record Message =
  role :: MessageRole
  content :: content

definition text_part :: "string \<Rightarrow> pydict" where
  "text_part s = [(''type'', ''text''), (''text'', s)]"

definition image_part :: "string \<Rightarrow> pydict" where
  "image_part img = [(''type'', ''image''), (''image'', img)]"

subsection \<open>String helpers of Python\<close>

text \<open>\<open>str.isspace\<close> on the code points below 256.\<close>

definition isspace :: "char \<Rightarrow> bool" where
  "isspace c = (c \<in> set [CHR 0x09, CHR 0x0A, CHR 0x0B, CHR 0x0C, CHR 0x0D,
                           CHR 0x1C, CHR 0x1D, CHR 0x1E, CHR 0x1F, CHR 0x20,
                           CHR 0x85, CHR 0xA0])"

text \<open>\<open>str.strip()\<close>: leading and trailing whitespace removed.\<close>

definition strip :: "string \<Rightarrow> string" where
  "strip s = rev (dropWhile isspace (rev (dropWhile isspace s)))"

subsection \<open>Step records\<close>

text \<open>
  \<open>ToolCall.arguments\<close> and \<open>ActionStep.action_output\<close> are \<open>Any\<close> (type \<open>'a\<close>),
  \<open>AgentError\<close> comes from smolagents.utils (type \<open>'e\<close>), and the timing fields are
  floats that nothing here computes on (type \<open>'f\<close>).
\<close>

record 'a ToolCall =
  name :: string
  arguments :: 'a
  id_tc :: string

record ('a, 'e, 'f) ActionStep =
  agent_memory :: "pydict list option"
  tool_calls :: "'a ToolCall list option"
  start_time :: "'f option"
  end_time :: "'f option"
  step_number :: "int option"
  error :: "'e option"
  duration :: "'f option"
  llm_output :: "string option"
  observations :: "string option"
  observations_images :: "string list option"
  action_output :: "'a option"

record PlanningStep =
  plan :: string
  facts :: string

record TaskStep =
  task :: string
  task_images :: "string list option"

record SystemPromptStep =
  system_prompt :: string

text \<open>The subclasses of \<open>AgentStepLog\<close>.\<close>

datatype ('a, 'e, 'f) AgentStepLog =
    Action "('a, 'e, 'f) ActionStep"
  | Planning PlanningStep
  | Task TaskStep
  | SystemPrompt SystemPromptStep

subsection \<open>The trace store\<close>

datatype LogLevel = ERROR | INFO | DEBUG

text \<open>
  \<open>AgentLogger\<close>: the attributes assigned by \<open>__init__\<close>. The console is an output
  device and carries no state that the operations below read.
\<close>

record ('a, 'e, 'f, 'm) AgentLogger =
  level :: LogLevel
  steps :: "('a, 'e, 'f) AgentStepLog list"
  chat_messages :: "'m list"

definition reset :: "('a, 'e, 'f, 'm) AgentLogger \<Rightarrow> ('a, 'e, 'f, 'm) AgentLogger" where
  "reset self = self\<lparr>steps := []\<rparr>"

text \<open>
  \<open>log_step(step, position)\<close>: \<open>position\<close> is \<open>None\<close> or an integer; the assertion
  raises \<open>AssertionError\<close>. \<open>self.steps[1:]\<close> is \<open>drop 1\<close>, also on the empty list.
\<close>

definition log_step ::
  "('a, 'e, 'f, 'm) AgentLogger \<Rightarrow> ('a, 'e, 'f) AgentStepLog \<Rightarrow> int option
     \<Rightarrow> py_exception + ('a, 'e, 'f, 'm) AgentLogger" where
  "log_step self step position =
     (case position of
        None \<Rightarrow> Inr (self\<lparr>steps := steps self @ [step]\<rparr>)
      | Some p \<Rightarrow>
          if p = 0 then Inr (self\<lparr>steps := [step] @ drop 1 (steps self)\<rparr>)
          else Inl AssertionError)"

definition log_chat_messages :: "('a, 'e, 'f, 'm) AgentLogger \<Rightarrow> 'm \<Rightarrow> ('a, 'e, 'f, 'm) AgentLogger" where
  "log_chat_messages self msg = self\<lparr>chat_messages := chat_messages self @ [msg]\<rparr>"

subsection \<open>Collaborators that are not part of logger.py\<close>

text \<open>
  \<open>str(error)\<close> of an \<open>AgentError\<close> and \<open>make_json_serializable\<close> come from
  smolagents.utils; \<open>repr\<close> of a string and of a JSON-safe value are Python's own. They
  are parameters of the projection; the spec requires them to return without raising.
\<close>

record ('a, 'e, 'j) externals =
  str_error :: "'e \<Rightarrow> string"
  make_json_serializable :: "'a \<Rightarrow> 'j"
  repr_str :: "string \<Rightarrow> string"
  repr_json :: "'j \<Rightarrow> string"

subsection \<open>Tool calls and their textual dump\<close>

text \<open>The values that \<open>ToolCall.dict()\<close> builds: strings, JSON-safe values, dicts.\<close>

datatype 'j pyvalue = PyStr string | PyJson 'j | PyDict "(string \<times> 'j pyvalue) list"

definition ToolCall_dict :: "('a, 'e, 'j) externals \<Rightarrow> 'a ToolCall \<Rightarrow> 'j pyvalue" where
  "ToolCall_dict X self =
     PyDict [(''id'', PyStr (id_tc self)),
             (''type'', PyStr ''function''),
             (''function'',
                PyDict [(''name'', PyStr (name self)),
                        (''arguments'', PyJson (make_json_serializable X (arguments self)))])]"

text \<open>\<open>sep.join(xs)\<close>.\<close>

fun join :: "string \<Rightarrow> string list \<Rightarrow> string" where
  "join sep [] = []"
| "join sep [x] = x"
| "join sep (x # y # ys) = x @ sep @ join sep (y # ys)"

text \<open>\<open>repr\<close> of a value: a dict prints as \<open>{k: v, ...}\<close> in insertion order.\<close>

fun py_repr :: "('a, 'e, 'j) externals \<Rightarrow> 'j pyvalue \<Rightarrow> string" where
  "py_repr X (PyStr s) = repr_str X s"
| "py_repr X (PyJson j) = repr_json X j"
| "py_repr X (PyDict kvs) =
     ''{'' @ join '', '' (map (\<lambda>(k, v). repr_str X k @ '': '' @ py_repr X v) kvs) @ ''}''"

text \<open>\<open>str\<close> of a list: the \<open>repr\<close> of its elements between brackets.\<close>

definition py_str_list :: "('a, 'e, 'j) externals \<Rightarrow> 'j pyvalue list \<Rightarrow> string" where
  "py_str_list X xs = ''['' @ join '', '' (map (py_repr X) xs) @ '']''"

text \<open>\<open>xs[0]\<close> raises \<open>IndexError\<close> on the empty list.\<close>

definition getitem0 :: "'x list \<Rightarrow> py_exception + 'x" where
  "getitem0 xs = (case xs of [] \<Rightarrow> Inl IndexError | x # _ \<Rightarrow> Inr x)"

subsection \<open>The projection of a step to messages\<close>

definition retry_text :: string where
  "retry_text = ''\<newline>Now let's retry: take care not to repeat previous errors! If you have retried several times, try a completely different approach.\<newline>''"

text \<open>
  \<open>ActionStep.to_messages(summary_mode, return_memory)\<close>. The local list \<open>memory\<close> is
  threaded through the five blocks in the order of the source; the only statement that
  can raise is \<open>self.tool_calls[0]\<close> in the fourth block.
\<close>

definition ActionStep_to_messages ::
  "('a, 'e, 'j) externals \<Rightarrow> ('a, 'e, 'f) ActionStep \<Rightarrow> bool \<Rightarrow> bool
     \<Rightarrow> py_exception + Message list" where
  "ActionStep_to_messages X self summary_mode return_memory =
     (let memory = [];
          memory =
            (case agent_memory self of
               Some am \<Rightarrow>
                 if return_memory then memory @ [\<lparr>role = SYSTEM, content = Parts am\<rparr>]
                 else memory
             | None \<Rightarrow> memory);
          memory =
            (case llm_output self of
               Some out \<Rightarrow>
                 if \<not> summary_mode
                 then memory @ [\<lparr>role = ASSISTANT, content = Parts [text_part (strip out)]\<rparr>]
                 else memory
             | None \<Rightarrow> memory);
          memory =
            (case tool_calls self of
               Some tcs \<Rightarrow>
                 memory @ [\<lparr>role = ASSISTANT,
                             content = Parts [text_part (py_str_list X (map (ToolCall_dict X) tcs))]\<rparr>]
             | None \<Rightarrow> memory)
      in case
           (case error self of
              Some err \<Rightarrow>
                (let message_content = ''Error:\<newline>'' @ str_error X err @ retry_text
                 in case tool_calls self of
                      None \<Rightarrow>
                        Inr (memory @ [\<lparr>role = ASSISTANT,
                                          content = Parts [text_part message_content]\<rparr>])
                    | Some tcs \<Rightarrow>
                        (case getitem0 tcs of
                           Inl e \<Rightarrow> Inl e
                         | Inr tc \<Rightarrow>
                             Inr (memory @ [\<lparr>role = TOOL_RESPONSE,
                                               content = Str (''Call id: '' @ id_tc tc @ ''\<newline>''
                                                              @ message_content)\<rparr>])))
            | None \<Rightarrow>
                (case observations self of
                   Some obs \<Rightarrow>
                     (case tool_calls self of
                        Some tcs \<Rightarrow>
                          (case getitem0 tcs of
                             Inl e \<Rightarrow> Inl e
                           | Inr tc \<Rightarrow>
                               Inr (memory @ [\<lparr>role = TOOL_RESPONSE,
                                                 content = Str (''Call id: '' @ id_tc tc
                                                                @ ''\<newline>Observation:\<newline>'' @ obs)\<rparr>]))
                      | None \<Rightarrow> Inr memory)
                 | None \<Rightarrow> Inr memory))
         of
           Inl e \<Rightarrow> Inl e
         | Inr memory \<Rightarrow>
             Inr (case observations_images self of
                    Some images \<Rightarrow>
                      if images \<noteq> []
                      then memory @ [\<lparr>role = USER,
                                        content = Parts ([text_part ''Here are the observed images:'']
                                                         @ map image_part images)\<rparr>]
                      else memory
                  | None \<Rightarrow> memory))"

text \<open>\<open>PlanningStep.to_messages(summary_mode, **kwargs)\<close>: the contents are plain strings.\<close>

definition PlanningStep_to_messages :: "PlanningStep \<Rightarrow> bool \<Rightarrow> Message list" where
  "PlanningStep_to_messages self summary_mode =
     (let memory = [];
          memory = memory @ [\<lparr>role = ASSISTANT,
                               content = Str (''[FACTS LIST]:\<newline>'' @ strip (facts self))\<rparr>]
      in if \<not> summary_mode
         then memory @ [\<lparr>role = ASSISTANT,
                          content = Str (''[PLAN]:\<newline>'' @ strip (plan self))\<rparr>]
         else memory)"

text \<open>
  \<open>TaskStep.to_messages(summary_mode, **kwargs)\<close>: the loop appends one image part per
  entry; \<open>if self.task_images\<close> is false for \<open>None\<close> and for the empty list.
\<close>

definition TaskStep_to_messages :: "TaskStep \<Rightarrow> bool \<Rightarrow> Message list" where
  "TaskStep_to_messages self summary_mode =
     (let content = [text_part (''New task:\<newline>'' @ task self)];
          content =
            (case task_images self of
               Some images \<Rightarrow>
                 if images \<noteq> []
                 then foldl (\<lambda>content img. content @ [image_part img]) content images
                 else content
             | None \<Rightarrow> content)
      in [\<lparr>role = USER, content = Parts content\<rparr>])"

definition SystemPromptStep_to_messages :: "SystemPromptStep \<Rightarrow> bool \<Rightarrow> Message list" where
  "SystemPromptStep_to_messages self summary_mode =
     (if \<not> summary_mode
      then [\<lparr>role = SYSTEM, content = Parts [text_part (strip (system_prompt self))]\<rparr>]
      else [])"

text \<open>
  The call \<open>step.to_messages(...)\<close> with keyword arguments: \<open>None\<close> stands for an
  argument that the call does not pass. \<open>summary_mode\<close> is a required parameter of all
  four methods and \<open>return_memory\<close> of \<open>ActionStep.to_messages\<close>: a call without them
  raises \<open>TypeError\<close>. The other three take \<open>return_memory\<close> in \<open>**kwargs\<close> and ignore it.
\<close>

fun to_messages ::
  "('a, 'e, 'j) externals \<Rightarrow> ('a, 'e, 'f) AgentStepLog \<Rightarrow> bool option \<Rightarrow> bool option
     \<Rightarrow> py_exception + Message list" where
  "to_messages X (Action a) (Some summary_mode) (Some return_memory) =
     ActionStep_to_messages X a summary_mode return_memory"
| "to_messages X (Action a) _ _ = Inl TypeError"
| "to_messages X (Planning p) (Some summary_mode) _ = Inr (PlanningStep_to_messages p summary_mode)"
| "to_messages X (Planning p) None _ = Inl TypeError"
| "to_messages X (Task t) (Some summary_mode) _ = Inr (TaskStep_to_messages t summary_mode)"
| "to_messages X (Task t) None _ = Inl TypeError"
| "to_messages X (SystemPrompt s) (Some summary_mode) _ =
     Inr (SystemPromptStep_to_messages s summary_mode)"
| "to_messages X (SystemPrompt s) None _ = Inl TypeError"

subsection \<open>Exports of the trace store\<close>

text \<open>
  A comprehension or a loop over a list evaluates its body from left to right and stops
  at the first exception.
\<close>

fun map_raising :: "('x \<Rightarrow> py_exception + 'y) \<Rightarrow> 'x list \<Rightarrow> py_exception + 'y list" where
  "map_raising f [] = Inr []"
| "map_raising f (x # xs) =
     (case f x of
        Inl e \<Rightarrow> Inl e
      | Inr y \<Rightarrow> (case map_raising f xs of Inl e \<Rightarrow> Inl e | Inr ys \<Rightarrow> Inr (y # ys)))"

text \<open>
  \<open>log.items()\<close> on a stored step: \<open>AgentStepLog\<close> defines \<open>dict\<close> and \<open>to_messages\<close>,
  the dataclasses add their fields, and none of them has an attribute \<open>items\<close>, so the
  lookup raises \<open>AttributeError\<close> for each of the four kinds of step.
\<close>

fun AgentStepLog_items :: "('a, 'e, 'f) AgentStepLog \<Rightarrow> py_exception + (string \<times> 'v) list" where
  "AgentStepLog_items (Action a) = Inl AttributeError"
| "AgentStepLog_items (Planning p) = Inl AttributeError"
| "AgentStepLog_items (Task t) = Inl AttributeError"
| "AgentStepLog_items (SystemPrompt s) = Inl AttributeError"

definition get_succinct_logs ::
  "('a, 'e, 'f, 'm) AgentLogger \<Rightarrow> py_exception + (string \<times> 'v) list list" where
  "get_succinct_logs self =
     map_raising
       (\<lambda>log. case AgentStepLog_items log of
                 Inl e \<Rightarrow> Inl e
               | Inr items \<Rightarrow> Inr (filter (\<lambda>(key, val). key \<noteq> ''agent_memory'') items))
       (steps self)"

subsection \<open>Replay\<close>

text \<open>\<open>str.upper()\<close> on ASCII text (the role names), and \<open>str\<close> of a non-negative integer.\<close>

definition upper :: "string \<Rightarrow> string" where
  "upper s = map (\<lambda>c. let n = (of_char c :: nat)
                        in if 97 \<le> n \<and> n \<le> 122 then char_of (n - 32) else c) s"

fun str_nat :: "nat \<Rightarrow> string" where
  "str_nat n =
     (if n < 10 then [char_of (48 + n)]
      else str_nat (n div 10) @ [char_of (48 + n mod 10)])"

declare str_nat.simps [simp del]

text \<open>
  \<open>eval(content)\<close> followed by \<open>enumerate(content)\<close> and \<open>len(content)\<close>, for a string
  \<open>content\<close>: the evaluation raises an \<open>Exception\<close>, or raises something that is not an
  \<open>Exception\<close> (such as \<open>SystemExit\<close>), or returns a value that cannot be enumerated, or
  returns a sequence of items. Which one depends on Python's evaluator, a parameter of
  the replay.
\<close>

datatype 'i evaluated = RaisesException | RaisesOther | NotIterable | Items "'i list"

datatype 'i item = Whole content | Element 'i

text \<open>What reaches the console: a line of text, or a rule (title) over a body in a theme.\<close>

datatype 'i console_entry = Line string | Block string "'i item" string

text \<open>
  Lines 262 to 266. \<open>eval\<close> of a list raises \<open>TypeError\<close>, an \<open>Exception\<close>, so list
  content always takes the fallback. The fallback catches \<open>Exception\<close> only, and a value
  that \<open>eval\<close> returns is enumerated outside the \<open>try\<close>.
\<close>

definition eval_content ::
  "(string \<Rightarrow> 'i evaluated) \<Rightarrow> content \<Rightarrow> py_exception + 'i item list" where
  "eval_content ev c =
     (case c of
        Parts ps \<Rightarrow> Inr [Whole c]
      | Str s \<Rightarrow>
          (case ev s of
             RaisesException \<Rightarrow> Inr [Whole c]
           | RaisesOther \<Rightarrow> Inl Uncaught
           | NotIterable \<Rightarrow> Inl TypeError
           | Items xs \<Rightarrow> Inr (map Element xs)))"

definition render_items :: "string \<Rightarrow> nat \<Rightarrow> string \<Rightarrow> 'i item list \<Rightarrow> 'i console_entry list" where
  "render_items role_name ix theme items =
     map (\<lambda>(substep_ix, item).
            Block (upper role_name @ '', STEP '' @ str_nat ix @ '', SUBSTEP ''
                     @ str_nat (substep_ix + 1) @ ''/'' @ str_nat (length items))
                  item theme)
         (enumerate 0 items)"

text \<open>
  The loop over the messages (lines 248 to 281), with the console output so far and the
  exception that ended it, if any. The statement \<open>role == "memory"\<close> is a comparison and
  changes nothing.
\<close>

fun replay_loop ::
  "(string \<Rightarrow> 'i evaluated) \<Rightarrow> nat \<Rightarrow> Message list
     \<Rightarrow> 'i console_entry list \<times> py_exception option" where
  "replay_loop ev ix [] = ([], None)"
| "replay_loop ev ix (step # memory) =
     (let role_name = strip (MessageRole_value (role step));
          theme = (if role_name = ''assistant'' then ''monokai''
                   else if role_name = ''system'' then ''monokai''
                   else if role_name = ''tool-response'' then ''github_dark''
                   else ''default'');
          ix = (if role_name = ''assistant'' then ix + 1 else ix)
      in case eval_content ev (content step) of
           Inl e \<Rightarrow> ([], Some e)
         | Inr items \<Rightarrow>
             (case replay_loop ev ix memory of
                (out, exc) \<Rightarrow> (render_items role_name ix theme items @ out, exc)))"

text \<open>
  \<open>self.logger\<close> inside \<open>AgentLogger.replay\<close>: \<open>__init__\<close> assigns \<open>level\<close>, \<open>steps\<close>,
  \<open>chat_messages\<close> and \<open>console\<close>, and the class has no attribute \<open>logger\<close>, so the
  lookup raises \<open>AttributeError\<close>.
\<close>

definition AgentLogger_logger ::
  "('a, 'e, 'f, 'm) AgentLogger \<Rightarrow> py_exception + ('a, 'e, 'f, 'm) AgentLogger" where
  "AgentLogger_logger self = Inl AttributeError"

text \<open>
  \<open>replay(with_memory)\<close>: the messages are collected with
  \<open>step_log.to_messages(return_memory=with_memory)\<close>, a call that passes no
  \<open>summary_mode\<close>, and then rendered.
\<close>

definition replay ::
  "('a, 'e, 'j) externals \<Rightarrow> (string \<Rightarrow> 'i evaluated) \<Rightarrow> ('a, 'e, 'f, 'm) AgentLogger \<Rightarrow> bool
     \<Rightarrow> 'i console_entry list \<times> py_exception option" where
  "replay X ev self with_memory =
     (case AgentLogger_logger self of
        Inl e \<Rightarrow> ([], Some e)
      | Inr logger \<Rightarrow>
          (case map_raising (\<lambda>step_log. to_messages X step_log None (Some with_memory))
                  (steps logger) of
             Inl e \<Rightarrow> ([], Some e)
           | Inr chunks \<Rightarrow>
               (case replay_loop ev 0 (concat chunks) of
                  (out, exc) \<Rightarrow> (Line ''Replaying the agent's steps:'' # out, exc))))"

subsection \<open>Concrete inputs\<close>

text \<open>
  Stand-ins for the collaborators and a few stored values, used where a property is
  evaluated on a concrete input: errors, tool arguments and JSON-safe values are strings,
  \<open>repr\<close> of a string puts it between single quotes, and the evaluator of the replay
  rejects every string.
\<close>

definition example_externals :: "(string, string, string) externals" where
  "example_externals =
     \<lparr>str_error = (\<lambda>e. e), make_json_serializable = (\<lambda>a. a),
      repr_str = (\<lambda>s. [CHR 0x27] @ s @ [CHR 0x27]), repr_json = (\<lambda>j. j)\<rparr>"

definition example_eval :: "string \<Rightarrow> unit evaluated" where
  "example_eval s = RaisesException"

definition call_c1 :: "string ToolCall" where
  "call_c1 = \<lparr>name = ''search'', arguments = ''{}'', id_tc = ''c1''\<rparr>"

text \<open>\<open>ActionStep()\<close>: every field at its default.\<close>

definition blank_action :: "(string, string, unit) ActionStep" where
  "blank_action =
     \<lparr>agent_memory = None, tool_calls = None, start_time = None, end_time = None,
      step_number = None, error = None, duration = None, llm_output = None,
      observations = None, observations_images = None, action_output = None\<rparr>"

text \<open>\<open>AgentLogger()\<close> after \<open>__init__\<close>.\<close>

definition new_logger :: "(string, string, unit, unit) AgentLogger" where
  "new_logger = \<lparr>level = INFO, steps = [], chat_messages = []\<rparr>"

section \<open>Properties of the trace store\<close>

text \<open>
  C9: for every state of the store, \<open>reset\<close> empties the step list and leaves the list
  of raw model outputs (and the level) exactly as it was.
\<close>

theorem reset_clears_steps_only:
  "steps (reset self) = [] \<and> chat_messages (reset self) = chat_messages self
     \<and> level (reset self) = level self"
  by (simp add: reset_def)

theorem reset_clears_steps_only_witness:
  "steps (reset (new_logger\<lparr>steps := [Planning \<lparr>plan = ''P'', facts = ''F''\<rparr>],
                             chat_messages := [(), ()]\<rparr>)) = []
   \<and> chat_messages (reset (new_logger\<lparr>steps := [Planning \<lparr>plan = ''P'', facts = ''F''\<rparr>],
                                       chat_messages := [(), ()]\<rparr>)) = [(), ()]"
  using reset_clears_steps_only
          [of "new_logger\<lparr>steps := [Planning \<lparr>plan = ''P'', facts = ''F''\<rparr>],
                           chat_messages := [(), ()]\<rparr>"]
  by (simp add: new_logger_def)

text \<open>
  C6: \<open>log_step\<close> with an explicit position fails (the assertion raises) for every
  position other than 0. At position 0 it succeeds: the new step list is the given step
  followed by the old steps from index 1 on, so every element at an index \<open>i > 0\<close> is
  the old one in its old place, a non-empty list keeps its length, and the raw outputs
  and the level are untouched. (On the empty list the result is the one-element list.)
\<close>

theorem log_step_position:
  "(p \<noteq> 0 \<longrightarrow> log_step self step (Some p) = Inl AssertionError)
   \<and> (\<exists>self'. log_step self step (Some 0) = Inr self'
         \<and> steps self' = step # drop 1 (steps self)
         \<and> chat_messages self' = chat_messages self
         \<and> level self' = level self
         \<and> (\<forall>i. 0 < i \<and> i < length (steps self) \<longrightarrow> steps self' ! i = steps self ! i)
         \<and> (steps self \<noteq> [] \<longrightarrow> length (steps self') = length (steps self)))"
proof -
  have other: "(step # drop 1 (steps self)) ! i = steps self ! i"
    if "0 < i" "i < length (steps self)" for i
    using that by (cases "steps self"; cases i) simp_all
  have len: "length (step # drop 1 (steps self)) = length (steps self)" if "steps self \<noteq> []"
    using that by (cases "steps self") simp_all
  show ?thesis
    using other len by (simp add: log_step_def)
qed

theorem log_step_position_witness:
  "(5::int) \<noteq> 0
   \<and> log_step (new_logger\<lparr>steps := [Task \<lparr>task = ''T'', task_images = None\<rparr>,
                                      Planning \<lparr>plan = ''P'', facts = ''F''\<rparr>]\<rparr>)
        (SystemPrompt \<lparr>system_prompt = ''S''\<rparr>) (Some 5) = Inl AssertionError
   \<and> (\<exists>self'. log_step (new_logger\<lparr>steps := [Task \<lparr>task = ''T'', task_images = None\<rparr>,
                                      Planning \<lparr>plan = ''P'', facts = ''F''\<rparr>]\<rparr>)
        (SystemPrompt \<lparr>system_prompt = ''S''\<rparr>) (Some 0) = Inr self'
      \<and> steps self' = [SystemPrompt \<lparr>system_prompt = ''S''\<rparr>, Planning \<lparr>plan = ''P'', facts = ''F''\<rparr>]
      \<and> chat_messages self' = []
      \<and> steps self' ! 1 = Planning \<lparr>plan = ''P'', facts = ''F''\<rparr>
      \<and> length (steps self') = 2)"
  using log_step_position
          [of 5 "new_logger\<lparr>steps := [Task \<lparr>task = ''T'', task_images = None\<rparr>,
                                        Planning \<lparr>plan = ''P'', facts = ''F''\<rparr>]\<rparr>"
              "SystemPrompt \<lparr>system_prompt = ''S''\<rparr>"]
  by (auto simp: new_logger_def)

text \<open>
  \<open>get_succinct_logs\<close> iterates over the stored step objects and calls \<open>items()\<close> on
  each, not on its dict-export. No step has that attribute, so on a store that holds a
  step the call raises \<open>AttributeError\<close> and no list is returned; only the empty store
  yields a result, the empty list.
\<close>

lemma get_succinct_logs_empty:
  "steps self = [] \<Longrightarrow> get_succinct_logs self = Inr []"
  by (simp add: get_succinct_logs_def)

lemma get_succinct_logs_nonempty:
  assumes "steps self \<noteq> []"
  shows "get_succinct_logs self = Inl AttributeError"
proof (cases "steps self")
  case Nil
  with assms show ?thesis by simp
next
  case (Cons log logs)
  then show ?thesis
    by (cases log) (simp_all add: get_succinct_logs_def)
qed

text \<open>
  C3 (the code departs from the claim): on a store holding one \<open>ActionStep\<close> whose
  \<open>agent_memory\<close> is set, \<open>get_succinct_logs\<close> raises \<open>AttributeError\<close> instead of
  returning the step's dict-export without the key \<open>agent_memory\<close>.
\<close>

theorem get_succinct_logs_raises:
  "get_succinct_logs
     (new_logger\<lparr>steps := [Action (blank_action\<lparr>agent_memory := Some [[(''role'', ''user'')]]\<rparr>)]\<rparr>)
   = (Inl AttributeError :: py_exception + (string \<times> unit) list list)"
  by (simp add: get_succinct_logs_def new_logger_def)

section \<open>Properties of the projection\<close>

lemma foldl_append_image_part:
  "foldl (\<lambda>acc img. acc @ [image_part img]) acc0 images = acc0 @ map image_part images"
  by (induction images arbitrary: acc0) simp_all

text \<open>
  C7: for every task, every (optional) list of task images and every mode,
  \<open>TaskStep.to_messages\<close> returns exactly one \<open>user\<close> message whose content is the text
  part \<open>"New task:\n" + task\<close> followed by one image part per entry, in order. With the
  images \<open>[a, b]\<close> the content has the three parts text, image \<open>a\<close>, image \<open>b\<close>.
\<close>

theorem TaskStep_one_user_message:
  "to_messages X (Task t) (Some summary_mode) return_memory =
     Inr [\<lparr>role = USER,
           content = Parts (text_part (''New task:\<newline>'' @ task t)
                            # map image_part
                                (case task_images t of Some images \<Rightarrow> images | None \<Rightarrow> []))\<rparr>]
   \<and> to_messages X (Task \<lparr>task = T, task_images = Some [a, b]\<rparr>) (Some summary_mode) return_memory =
     Inr [\<lparr>role = USER,
           content = Parts [text_part (''New task:\<newline>'' @ T), image_part a, image_part b]\<rparr>]"
  by (simp add: TaskStep_to_messages_def foldl_append_image_part Let_def split: option.split)

theorem TaskStep_one_user_message_witness:
  "to_messages example_externals
     (Task \<lparr>task = ''T'', task_images = Some [''a'', ''b'']\<rparr> :: (string, string, unit) AgentStepLog)
     (Some True) (Some False) =
   Inr [\<lparr>role = USER,
         content = Parts [[(''type'', ''text''), (''text'', ''New task:\<newline>T'')],
                          [(''type'', ''image''), (''image'', ''a'')],
                          [(''type'', ''image''), (''image'', ''b'')]]\<rparr>]"
  using TaskStep_one_user_message
          [of example_externals "\<lparr>task = ''T'', task_images = Some [''a'', ''b'']\<rparr>" True "Some False"]
  by (simp add: text_part_def image_part_def)

text \<open>
  C8: for every \<open>PlanningStep\<close>, \<open>to_messages\<close> in summary mode returns exactly one
  \<open>assistant\<close> message with the text \<open>"[FACTS LIST]:\n" + strip(facts)\<close>; outside summary
  mode it returns exactly two \<open>assistant\<close> messages, the facts message and then
  \<open>"[PLAN]:\n" + strip(plan)\<close>. Whether and how \<open>return_memory\<close> is passed changes nothing.
\<close>

theorem PlanningStep_facts_then_plan:
  "to_messages X (Planning p) (Some True) return_memory =
     Inr [\<lparr>role = ASSISTANT, content = Str (''[FACTS LIST]:\<newline>'' @ strip (facts p))\<rparr>]
   \<and> to_messages X (Planning p) (Some False) return_memory =
     Inr [\<lparr>role = ASSISTANT, content = Str (''[FACTS LIST]:\<newline>'' @ strip (facts p))\<rparr>,
          \<lparr>role = ASSISTANT, content = Str (''[PLAN]:\<newline>'' @ strip (plan p))\<rparr>]"
  by (simp add: PlanningStep_to_messages_def Let_def)

theorem PlanningStep_facts_then_plan_witness:
  "to_messages example_externals
     (Planning \<lparr>plan = '' P '', facts = ''F\<newline>''\<rparr> :: (string, string, unit) AgentStepLog)
     (Some True) (Some True) =
     Inr [\<lparr>role = ASSISTANT, content = Str ''[FACTS LIST]:\<newline>F''\<rparr>]
   \<and> to_messages example_externals
     (Planning \<lparr>plan = '' P '', facts = ''F\<newline>''\<rparr> :: (string, string, unit) AgentStepLog)
     (Some False) (Some True) =
     Inr [\<lparr>role = ASSISTANT, content = Str ''[FACTS LIST]:\<newline>F''\<rparr>,
          \<lparr>role = ASSISTANT, content = Str ''[PLAN]:\<newline>P''\<rparr>]"
  using PlanningStep_facts_then_plan
          [of example_externals "\<lparr>plan = '' P '', facts = ''F\<newline>''\<rparr>" "Some True"]
  by (simp add: strip_def isspace_def)

text \<open>
  The five blocks of \<open>ActionStep.to_messages\<close>, and the one input shape on which the
  fourth block raises.
\<close>

lemma ActionStep_to_messages_cases:
  "ActionStep_to_messages X self summary_mode return_memory =
     (if tool_calls self = Some [] \<and> (error self \<noteq> None \<or> observations self \<noteq> None)
      then Inl IndexError
      else Inr ((if agent_memory self \<noteq> None \<and> return_memory
           then [\<lparr>role = SYSTEM, content = Parts (the (agent_memory self))\<rparr>] else [])
        @ (if llm_output self \<noteq> None \<and> \<not> summary_mode
           then [\<lparr>role = ASSISTANT, content = Parts [text_part (strip (the (llm_output self)))]\<rparr>]
           else [])
        @ (if tool_calls self \<noteq> None
           then [\<lparr>role = ASSISTANT,
                  content = Parts [text_part (py_str_list X (map (ToolCall_dict X) (the (tool_calls self))))]\<rparr>]
           else [])
        @ (if error self \<noteq> None
           then (if tool_calls self = None
                 then [\<lparr>role = ASSISTANT,
                        content = Parts [text_part (''Error:\<newline>'' @ str_error X (the (error self))
                                                    @ retry_text)]\<rparr>]
                 else [\<lparr>role = TOOL_RESPONSE,
                        content = Str (''Call id: '' @ id_tc (hd (the (tool_calls self))) @ ''\<newline>''
                                       @ ''Error:\<newline>'' @ str_error X (the (error self))
                                       @ retry_text)\<rparr>])
           else if observations self \<noteq> None \<and> tool_calls self \<noteq> None
           then [\<lparr>role = TOOL_RESPONSE,
                  content = Str (''Call id: '' @ id_tc (hd (the (tool_calls self)))
                                 @ ''\<newline>Observation:\<newline>'' @ the (observations self))\<rparr>]
           else [])
        @ (if observations_images self \<noteq> None \<and> the (observations_images self) \<noteq> []
           then [\<lparr>role = USER,
                  content = Parts (text_part ''Here are the observed images:''
                                   # map image_part (the (observations_images self)))\<rparr>]
           else [])))"
proof (cases "tool_calls self")
  case None
  then show ?thesis
    by (cases "error self"; cases "observations self")
       (simp_all add: ActionStep_to_messages_def Let_def split: option.split)
next
  case (Some tcs)
  then show ?thesis
    by (cases tcs; cases "error self"; cases "observations self")
       (simp_all add: ActionStep_to_messages_def getitem0_def Let_def split: option.split)
qed

text \<open>
  C2 (amended): for every \<open>ActionStep\<close> that does not combine an empty \<open>tool_calls\<close> list
  with an error or observations, and for every mode, \<open>to_messages\<close> returns the
  concatenation, in this order, of five independently guarded blocks: (1) a \<open>system\<close>
  message with the raw \<open>agent_memory\<close> as content iff \<open>agent_memory\<close> is present and
  \<open>return_memory\<close> is true; (2) an \<open>assistant\<close> message with one text part, the stripped
  \<open>llm_output\<close>, iff \<open>llm_output\<close> is present and \<open>summary_mode\<close> is false; (3) an
  \<open>assistant\<close> message with one text part, \<open>str\<close> of the list of tool-call dicts, iff
  \<open>tool_calls\<close> is not \<open>None\<close>; (4) the error or observation message; (5) a \<open>user\<close>
  message with the text part "Here are the observed images:" and one image part per
  entry iff \<open>observations_images\<close> is a non-empty list.
\<close>

theorem ActionStep_to_messages_order:
  assumes "\<not> (tool_calls self = Some [] \<and> (error self \<noteq> None \<or> observations self \<noteq> None))"
  shows "ActionStep_to_messages X self summary_mode return_memory =
     Inr ((if agent_memory self \<noteq> None \<and> return_memory
           then [\<lparr>role = SYSTEM, content = Parts (the (agent_memory self))\<rparr>] else [])
        @ (if llm_output self \<noteq> None \<and> \<not> summary_mode
           then [\<lparr>role = ASSISTANT, content = Parts [text_part (strip (the (llm_output self)))]\<rparr>]
           else [])
        @ (if tool_calls self \<noteq> None
           then [\<lparr>role = ASSISTANT,
                  content = Parts [text_part (py_str_list X (map (ToolCall_dict X) (the (tool_calls self))))]\<rparr>]
           else [])
        @ (if error self \<noteq> None
           then (if tool_calls self = None
                 then [\<lparr>role = ASSISTANT,
                        content = Parts [text_part (''Error:\<newline>'' @ str_error X (the (error self))
                                                    @ retry_text)]\<rparr>]
                 else [\<lparr>role = TOOL_RESPONSE,
                        content = Str (''Call id: '' @ id_tc (hd (the (tool_calls self))) @ ''\<newline>''
                                       @ ''Error:\<newline>'' @ str_error X (the (error self))
                                       @ retry_text)\<rparr>])
           else if observations self \<noteq> None \<and> tool_calls self \<noteq> None
           then [\<lparr>role = TOOL_RESPONSE,
                  content = Str (''Call id: '' @ id_tc (hd (the (tool_calls self)))
                                 @ ''\<newline>Observation:\<newline>'' @ the (observations self))\<rparr>]
           else [])
        @ (if observations_images self \<noteq> None \<and> the (observations_images self) \<noteq> []
           then [\<lparr>role = USER,
                  content = Parts (text_part ''Here are the observed images:''
                                   # map image_part (the (observations_images self)))\<rparr>]
           else []))"
  using assms by (simp add: ActionStep_to_messages_cases)

theorem ActionStep_to_messages_order_witness:
  "tool_calls (blank_action\<lparr>agent_memory := Some [[(''role'', ''user''), (''content'', ''hi'')]],
                            llm_output := Some '' thought\<newline>'', tool_calls := Some [call_c1],
                            error := Some ''boom'', observations := Some ''obs'',
                            observations_images := Some [''img1'']\<rparr>) = Some [call_c1]
   \<and> ActionStep_to_messages example_externals
        (blank_action\<lparr>agent_memory := Some [[(''role'', ''user''), (''content'', ''hi'')]],
                       llm_output := Some '' thought\<newline>'', tool_calls := Some [call_c1],
                       error := Some ''boom'', observations := Some ''obs'',
                       observations_images := Some [''img1'']\<rparr>)
        False True =
      Inr [\<lparr>role = SYSTEM, content = Parts [[(''role'', ''user''), (''content'', ''hi'')]]\<rparr>,
           \<lparr>role = ASSISTANT, content = Parts [[(''type'', ''text''), (''text'', ''thought'')]]\<rparr>,
           \<lparr>role = ASSISTANT,
            content = Parts [[(''type'', ''text''),
                              (''text'', ''[{'id': 'c1', 'type': 'function', 'function': {'name': 'search', 'arguments': {}}}]'')]]\<rparr>,
           \<lparr>role = TOOL_RESPONSE,
            content = Str (''Call id: c1\<newline>Error:\<newline>boom'' @ retry_text)\<rparr>,
           \<lparr>role = USER,
            content = Parts [[(''type'', ''text''), (''text'', ''Here are the observed images:'')],
                             [(''type'', ''image''), (''image'', ''img1'')]]\<rparr>]
   \<and> ActionStep_to_messages example_externals (blank_action\<lparr>tool_calls := Some []\<rparr>) True True =
      Inr [\<lparr>role = ASSISTANT, content = Parts [[(''type'', ''text''), (''text'', ''[]'')]]\<rparr>]
   \<and> ActionStep_to_messages example_externals blank_action False True = Inr []"
  using ActionStep_to_messages_order
          [of "blank_action\<lparr>agent_memory := Some [[(''role'', ''user''), (''content'', ''hi'')]],
                              llm_output := Some '' thought\<newline>'', tool_calls := Some [call_c1],
                              error := Some ''boom'', observations := Some ''obs'',
                              observations_images := Some [''img1'']\<rparr>"
              example_externals False True]
        ActionStep_to_messages_order [of "blank_action\<lparr>tool_calls := Some []\<rparr>" example_externals True True]
        ActionStep_to_messages_order [of blank_action example_externals False True]
  by (simp add: blank_action_def call_c1_def example_externals_def text_part_def image_part_def
        strip_def isspace_def py_str_list_def ToolCall_dict_def)

text \<open>
  C2 as stated fails where \<open>tool_calls\<close> is the empty list and observations are present:
  no message sequence is returned.
\<close>

theorem ActionStep_observations_empty_tool_calls:
  "ActionStep_to_messages example_externals
     (blank_action\<lparr>tool_calls := Some [], observations := Some ''obs''\<rparr>) False True
   = Inl IndexError"
  by (simp add: ActionStep_to_messages_def blank_action_def getitem0_def Let_def)

text \<open>
  C1 (amended): for every \<open>ActionStep\<close> that does not combine an empty \<open>tool_calls\<close> list
  with an error or observations, \<open>to_messages\<close> returns messages of which at most one is
  a tool response, and never both the error and the observation message. With an error
  and \<open>tool_calls = None\<close> the error text is emitted as an \<open>assistant\<close> text message and
  there is no tool response; with an error and a first tool call the only tool response
  is \<open>"Call id: " + id + "\n" + error text\<close>; without an error the only tool response is
  \<open>"Call id: " + id + "\nObservation:\n" + observations\<close> when observations and a first
  tool call are present, and there is none when either is \<open>None\<close>.
\<close>

theorem ActionStep_error_or_observation:
  assumes "\<not> (tool_calls self = Some [] \<and> (error self \<noteq> None \<or> observations self \<noteq> None))"
  shows "\<exists>ms. ActionStep_to_messages X self summary_mode return_memory = Inr ms \<and>
     (\<forall>err. error self = Some err \<and> tool_calls self = None \<longrightarrow>
        \<lparr>role = ASSISTANT,
         content = Parts [text_part (''Error:\<newline>'' @ str_error X err @ retry_text)]\<rparr> \<in> set ms
        \<and> filter (\<lambda>m. role m = TOOL_RESPONSE) ms = []) \<and>
     (\<forall>err tc tcs. error self = Some err \<and> tool_calls self = Some (tc # tcs) \<longrightarrow>
        filter (\<lambda>m. role m = TOOL_RESPONSE) ms =
          [\<lparr>role = TOOL_RESPONSE,
            content = Str (''Call id: '' @ id_tc tc @ ''\<newline>'' @ ''Error:\<newline>''
                           @ str_error X err @ retry_text)\<rparr>]) \<and>
     (\<forall>obs tc tcs. error self = None \<and> observations self = Some obs
          \<and> tool_calls self = Some (tc # tcs) \<longrightarrow>
        filter (\<lambda>m. role m = TOOL_RESPONSE) ms =
          [\<lparr>role = TOOL_RESPONSE,
            content = Str (''Call id: '' @ id_tc tc @ ''\<newline>Observation:\<newline>'' @ obs)\<rparr>]) \<and>
     (error self = None \<and> (observations self = None \<or> tool_calls self = None) \<longrightarrow>
        filter (\<lambda>m. role m = TOOL_RESPONSE) ms = [])"
  using assms by (auto simp: ActionStep_to_messages_cases)

theorem ActionStep_error_or_observation_witness:
  "tool_calls (blank_action\<lparr>tool_calls := Some [call_c1], error := Some ''boom'',
                            observations := Some ''obs''\<rparr>) = Some [call_c1]
   \<and> (\<exists>ms. ActionStep_to_messages example_externals
               (blank_action\<lparr>tool_calls := Some [call_c1], error := Some ''boom'',
                              observations := Some ''obs''\<rparr>) False False = Inr ms
          \<and> filter (\<lambda>m. role m = TOOL_RESPONSE) ms =
              [\<lparr>role = TOOL_RESPONSE,
                content = Str (''Call id: c1\<newline>Error:\<newline>boom'' @ retry_text)\<rparr>])
   \<and> (\<exists>ms. ActionStep_to_messages example_externals
               (blank_action\<lparr>error := Some ''boom'', observations := Some ''obs''\<rparr>) False False
             = Inr ms
          \<and> \<lparr>role = ASSISTANT,
              content = Parts [text_part (''Error:\<newline>boom'' @ retry_text)]\<rparr> \<in> set ms
          \<and> filter (\<lambda>m. role m = TOOL_RESPONSE) ms = [])
   \<and> (\<exists>ms. ActionStep_to_messages example_externals
               (blank_action\<lparr>tool_calls := Some [call_c1], observations := Some ''obs''\<rparr>)
               False False = Inr ms
          \<and> filter (\<lambda>m. role m = TOOL_RESPONSE) ms =
              [\<lparr>role = TOOL_RESPONSE, content = Str ''Call id: c1\<newline>Observation:\<newline>obs''\<rparr>])"
  using ActionStep_error_or_observation
          [of "blank_action\<lparr>tool_calls := Some [call_c1], error := Some ''boom'',
                              observations := Some ''obs''\<rparr>" example_externals False False]
        ActionStep_error_or_observation
          [of "blank_action\<lparr>error := Some ''boom'', observations := Some ''obs''\<rparr>"
              example_externals False False]
        ActionStep_error_or_observation
          [of "blank_action\<lparr>tool_calls := Some [call_c1], observations := Some ''obs''\<rparr>"
              example_externals False False]
  by (auto simp: blank_action_def call_c1_def example_externals_def)

text \<open>
  C1 as stated fails where \<open>tool_calls\<close> is the empty list and an error is present: there
  is no first tool call, and no message sequence is returned.
\<close>

theorem ActionStep_error_empty_tool_calls:
  "ActionStep_to_messages example_externals
     (blank_action\<lparr>tool_calls := Some [], error := Some ''boom''\<rparr>) False False
   = Inl IndexError"
  by (simp add: ActionStep_to_messages_def blank_action_def getitem0_def Let_def)

text \<open>
  C10: \<open>ActionStep.to_messages\<close> returns a message sequence exactly when the step does not
  combine an empty (non-null) \<open>tool_calls\<close> list with an error or with observations; on
  such a step \<open>self.tool_calls[0]\<close> is out of range and the call raises \<open>IndexError\<close>.
\<close>

theorem ActionStep_to_messages_IndexError:
  "(tool_calls self = Some [] \<and> (error self \<noteq> None \<or> observations self \<noteq> None)
      \<longrightarrow> ActionStep_to_messages X self summary_mode return_memory = Inl IndexError)
   \<and> (\<not> (tool_calls self = Some [] \<and> (error self \<noteq> None \<or> observations self \<noteq> None))
      \<longrightarrow> (\<exists>ms. ActionStep_to_messages X self summary_mode return_memory = Inr ms))"
  by (simp add: ActionStep_to_messages_cases)

theorem ActionStep_to_messages_IndexError_witness:
  "tool_calls (blank_action\<lparr>tool_calls := Some [], error := Some ''boom'',
                            llm_output := Some ''thought''\<rparr>) = Some []
   \<and> error (blank_action\<lparr>tool_calls := Some [], error := Some ''boom'',
                         llm_output := Some ''thought''\<rparr>) = Some ''boom''
   \<and> ActionStep_to_messages example_externals
        (blank_action\<lparr>tool_calls := Some [], error := Some ''boom'', llm_output := Some ''thought''\<rparr>)
        True False = Inl IndexError
   \<and> observations (blank_action\<lparr>tool_calls := Some [], observations := Some ''obs''\<rparr>) = Some ''obs''
   \<and> ActionStep_to_messages example_externals
        (blank_action\<lparr>tool_calls := Some [], observations := Some ''obs''\<rparr>) True False
      = Inl IndexError
   \<and> (\<exists>ms. ActionStep_to_messages example_externals
               (blank_action\<lparr>tool_calls := Some [call_c1], error := Some ''boom''\<rparr>) True False
             = Inr ms)"
  using ActionStep_to_messages_IndexError
          [of "blank_action\<lparr>tool_calls := Some [], error := Some ''boom'',
                              llm_output := Some ''thought''\<rparr>" example_externals True False]
        ActionStep_to_messages_IndexError
          [of "blank_action\<lparr>tool_calls := Some [], observations := Some ''obs''\<rparr>"
              example_externals True False]
        ActionStep_to_messages_IndexError
          [of "blank_action\<lparr>tool_calls := Some [call_c1], error := Some ''boom''\<rparr>"
              example_externals True False]
  by (simp add: blank_action_def)

section \<open>Properties of the replay\<close>

text \<open>
  Two statements of \<open>replay\<close> raise before any message is rendered: the lookup
  \<open>self.logger\<close>, on every store, and, were the steps reached, the call of \<open>to_messages\<close>
  without \<open>summary_mode\<close>, on every step.
\<close>

lemma to_messages_without_summary_mode:
  "to_messages X step None return_memory = Inl TypeError"
  by (cases step) simp_all

lemma collect_without_summary_mode:
  assumes "logs \<noteq> []"
  shows "map_raising (\<lambda>step_log. to_messages X step_log None (Some with_memory)) logs = Inl TypeError"
  using assms by (cases logs) (simp_all add: to_messages_without_summary_mode)

lemma replay_always_raises:
  "replay X ev self with_memory = ([], Some AttributeError)"
  by (simp add: replay_def AgentLogger_logger_def)

text \<open>
  The rendering loop on its own: content that is a list, or a string on which the
  evaluation raises an \<open>Exception\<close>, is shown as one item, the raw content, and the loop
  goes on with the next message.
\<close>

lemma eval_content_fallback:
  "(\<exists>ps. c = Parts ps) \<or> (\<exists>s. c = Str s \<and> ev s = RaisesException)
     \<Longrightarrow> eval_content ev c = Inr [Whole c]"
  by (auto simp: eval_content_def)

lemma replay_loop_fallback:
  assumes "eval_content ev (content step) = Inr [Whole (content step)]"
  shows "\<exists>title theme.
           replay_loop ev ix (step # memory) =
             (Block title (Whole (content step)) theme
                # fst (replay_loop ev (if role step = ASSISTANT then ix + 1 else ix) memory),
              snd (replay_loop ev (if role step = ASSISTANT then ix + 1 else ix) memory))"
  using assms
  by (cases "role step")
     (simp_all add: strip_def isspace_def render_items_def enumerate_eq_zip case_prod_beta Let_def)

text \<open>
  C4 (the code departs from the claim): on a store holding one \<open>TaskStep\<close>,
  \<open>replay(with_memory=False)\<close> consumes no projection at all: it raises
  \<open>AttributeError\<close> with nothing written to the console.
\<close>

theorem replay_raises_on_task:
  "replay example_externals example_eval
     (new_logger\<lparr>steps := [Task \<lparr>task = ''T'', task_images = None\<rparr>]\<rparr>) False
   = ([], Some AttributeError)"
  by (simp add: replay_def AgentLogger_logger_def)

text \<open>
  C5 (the code departs from the claim): on a store holding one \<open>PlanningStep\<close>, whose
  messages have plain strings as content, \<open>replay(with_memory=True)\<close> raises
  \<open>AttributeError\<close> and renders nothing, instead of showing each content as one item.
\<close>

theorem replay_raises_on_plain_content:
  "replay example_externals example_eval
     (new_logger\<lparr>steps := [Planning \<lparr>plan = ''P'', facts = ''F''\<rparr>]\<rparr>) True
   = ([], Some AttributeError)"
  by (simp add: replay_def AgentLogger_logger_def)

end
